theory Spec2Isabelle
  imports Complex_Main
begin

section \<open>Python strings\<close>

text \<open>
  A Python \<open>str\<close> is modelled as a \<open>string\<close>, one \<open>char\<close> per code point, for text
  over the code points 0 to 255 (ISO-8859-1). White space, digits, letters and
  lower-casing are those of Python on that range. Upper-casing is Python's, except
  for the two code points 0xB5 and 0xFF, whose upper-case forms are single code
  points above 255: they are left as they are.
\<close>

definition isspace :: "char \<Rightarrow> bool" where
  "isspace c =
     (let n = (of_char c :: nat)
      in (9 \<le> n \<and> n \<le> 13) \<or> (28 \<le> n \<and> n \<le> 32) \<or> n = 133 \<or> n = 160)"

definition isdigit :: "char \<Rightarrow> bool" where
  "isdigit c = (let n = (of_char c :: nat) in 48 \<le> n \<and> n \<le> 57)"

definition isalpha :: "char \<Rightarrow> bool" where
  "isalpha c =
     (let n = (of_char c :: nat)
      in (65 \<le> n \<and> n \<le> 90) \<or> (97 \<le> n \<and> n \<le> 122) \<or> n = 170 \<or> n = 181 \<or> n = 186
         \<or> (192 \<le> n \<and> n \<le> 214) \<or> (216 \<le> n \<and> n \<le> 246) \<or> 248 \<le> n)"

definition lower_char :: "char \<Rightarrow> char" where
  "lower_char c =
     (let n = (of_char c :: nat)
      in if (65 \<le> n \<and> n \<le> 90) \<or> (192 \<le> n \<and> n \<le> 214) \<or> (216 \<le> n \<and> n \<le> 222)
         then char_of (n + 32) else c)"

definition upper_char :: "char \<Rightarrow> string" where
  "upper_char c =
     (let n = (of_char c :: nat)
      in if (97 \<le> n \<and> n \<le> 122) \<or> (224 \<le> n \<and> n \<le> 246) \<or> (248 \<le> n \<and> n \<le> 254)
         then [char_of (n - 32)]
         else if n = 223 then ''SS'' else [c])"

definition str_lower :: "string \<Rightarrow> string" where
  "str_lower s = map lower_char s"

definition str_upper :: "string \<Rightarrow> string" where
  "str_upper s = concat (map upper_char s)"

text \<open>\<open>s.strip()\<close> and \<open>s.strip(chars)\<close>.\<close>

definition str_strip :: "string \<Rightarrow> string" where
  "str_strip s = rev (dropWhile isspace (rev (dropWhile isspace s)))"

definition str_strip_chars :: "string \<Rightarrow> string \<Rightarrow> string" where
  "str_strip_chars s chars =
     rev (dropWhile (\<lambda>c. c \<in> set chars) (rev (dropWhile (\<lambda>c. c \<in> set chars) s)))"

definition str_rstrip_chars :: "string \<Rightarrow> string \<Rightarrow> string" where
  "str_rstrip_chars s chars = rev (dropWhile (\<lambda>c. c \<in> set chars) (rev s))"

text \<open>\<open>s.startswith(p)\<close>, \<open>s.endswith(p)\<close> and \<open>sub in s\<close>.\<close>

fun startswith :: "string \<Rightarrow> string \<Rightarrow> bool" where
  "startswith s [] = True"
| "startswith [] (p # ps) = False"
| "startswith (c # cs) (p # ps) = (c = p \<and> startswith cs ps)"

definition endswith :: "string \<Rightarrow> string \<Rightarrow> bool" where
  "endswith s p = startswith (rev s) (rev p)"

fun str_contains :: "string \<Rightarrow> string \<Rightarrow> bool" where
  "str_contains [] sub = (sub = [])"
| "str_contains (c # cs) sub = (startswith (c # cs) sub \<or> str_contains cs sub)"

text \<open>
  \<open>s.replace(old, new)\<close> and \<open>s.count(sub)\<close> go through \<open>s\<close> from the left and take
  occurrences that do not overlap. The counter of \<open>replace_from\<close> and \<open>count_from\<close>
  is the number of characters of the occurrence just found that are still to be
  skipped. Every call below has a non-empty \<open>old\<close>; for an empty one Python puts
  \<open>new\<close> before every character and at the end, and counts \<open>len(s) + 1\<close>.
\<close>

fun replace_from :: "string \<Rightarrow> string \<Rightarrow> nat \<Rightarrow> string \<Rightarrow> string" where
  "replace_from old new k [] = []"
| "replace_from old new (Suc k) (c # cs) = replace_from old new k cs"
| "replace_from old new 0 (c # cs) =
     (if startswith (c # cs) old then new @ replace_from old new (length old - 1) cs
      else c # replace_from old new 0 cs)"

definition str_replace :: "string \<Rightarrow> string \<Rightarrow> string \<Rightarrow> string" where
  "str_replace s old new =
     (if old = [] then new @ concat (map (\<lambda>c. c # new) s) else replace_from old new 0 s)"

fun count_from :: "string \<Rightarrow> nat \<Rightarrow> string \<Rightarrow> nat" where
  "count_from sub k [] = 0"
| "count_from sub (Suc k) (c # cs) = count_from sub k cs"
| "count_from sub 0 (c # cs) =
     (if startswith (c # cs) sub then Suc (count_from sub (length sub - 1) cs)
      else count_from sub 0 cs)"

definition str_count :: "string \<Rightarrow> string \<Rightarrow> nat" where
  "str_count s sub = (if sub = [] then length s + 1 else count_from sub 0 s)"

text \<open>
  \<open>s.split()\<close> cuts at runs of white space and returns no empty word;
  \<open>sep.join(words)\<close> puts them together again.
\<close>

fun split_from :: "string \<Rightarrow> string \<Rightarrow> string list" where
  "split_from cur [] = (if cur = [] then [] else [cur])"
| "split_from cur (c # cs) =
     (if isspace c then (if cur = [] then split_from [] cs else cur # split_from [] cs)
      else split_from (cur @ [c]) cs)"

definition str_split :: "string \<Rightarrow> string list" where
  "str_split s = split_from [] s"

fun str_join :: "string \<Rightarrow> string list \<Rightarrow> string" where
  "str_join sep [] = []"
| "str_join sep [w] = w"
| "str_join sep (w # v # ws) = w @ sep @ str_join sep (v # ws)"

text \<open>
  \<open>s.split(sep)[0]\<close> for a non-empty \<open>sep\<close>: the text before the first occurrence of
  \<open>sep\<close>, all of \<open>s\<close> when there is none.
\<close>

fun split_sep_first :: "string \<Rightarrow> string \<Rightarrow> string" where
  "split_sep_first [] sep = []"
| "split_sep_first (c # cs) sep =
     (if startswith (c # cs) sep then [] else c # split_sep_first cs sep)"


section \<open>The answer processor\<close>

text \<open>Class \<open>EvalAIAnswerProcessor\<close>: its tables, in the order of the source.\<close>

definition CONTRACTIONS :: "(string \<times> string) list" where
  "CONTRACTIONS =
  [(''aint'', ''ain't''),
   (''arent'', ''aren't''),
   (''cant'', ''can't''),
   (''couldve'', ''could've''),
   (''couldnt'', ''couldn't''),
   (''couldn'tve'', ''couldn't've''),
   (''couldnt've'', ''couldn't've''),
   (''didnt'', ''didn't''),
   (''doesnt'', ''doesn't''),
   (''dont'', ''don't''),
   (''hadnt'', ''hadn't''),
   (''hadnt've'', ''hadn't've''),
   (''hadn'tve'', ''hadn't've''),
   (''hasnt'', ''hasn't''),
   (''havent'', ''haven't''),
   (''hed'', ''he'd''),
   (''hed've'', ''he'd've''),
   (''he'dve'', ''he'd've''),
   (''hes'', ''he's''),
   (''howd'', ''how'd''),
   (''howll'', ''how'll''),
   (''hows'', ''how's''),
   (''Id've'', ''I'd've''),
   (''I'dve'', ''I'd've''),
   (''Im'', ''I'm''),
   (''Ive'', ''I've''),
   (''isnt'', ''isn't''),
   (''itd'', ''it'd''),
   (''itd've'', ''it'd've''),
   (''it'dve'', ''it'd've''),
   (''itll'', ''it'll''),
   (''let's'', ''let's''),
   (''maam'', ''ma'am''),
   (''mightnt'', ''mightn't''),
   (''mightnt've'', ''mightn't've''),
   (''mightn'tve'', ''mightn't've''),
   (''mightve'', ''might've''),
   (''mustnt'', ''mustn't''),
   (''mustve'', ''must've''),
   (''neednt'', ''needn't''),
   (''notve'', ''not've''),
   (''oclock'', ''o'clock''),
   (''oughtnt'', ''oughtn't''),
   (''ow's'at'', '''ow's'at''),
   ('''ows'at'', '''ow's'at''),
   ('''ow'sat'', '''ow's'at''),
   (''shant'', ''shan't''),
   (''shed've'', ''she'd've''),
   (''she'dve'', ''she'd've''),
   (''she's'', ''she's''),
   (''shouldve'', ''should've''),
   (''shouldnt'', ''shouldn't''),
   (''shouldnt've'', ''shouldn't've''),
   (''shouldn'tve'', ''shouldn't've''),
   (''somebody'd'', ''somebodyd''),
   (''somebodyd've'', ''somebody'd've''),
   (''somebody'dve'', ''somebody'd've''),
   (''somebodyll'', ''somebody'll''),
   (''somebodys'', ''somebody's''),
   (''someoned'', ''someone'd''),
   (''someoned've'', ''someone'd've''),
   (''someone'dve'', ''someone'd've''),
   (''someonell'', ''someone'll''),
   (''someones'', ''someone's''),
   (''somethingd'', ''something'd''),
   (''somethingd've'', ''something'd've''),
   (''something'dve'', ''something'd've''),
   (''somethingll'', ''something'll''),
   (''thats'', ''that's''),
   (''thered'', ''there'd''),
   (''thered've'', ''there'd've''),
   (''there'dve'', ''there'd've''),
   (''therere'', ''there're''),
   (''theres'', ''there's''),
   (''theyd'', ''they'd''),
   (''theyd've'', ''they'd've''),
   (''they'dve'', ''they'd've''),
   (''theyll'', ''they'll''),
   (''theyre'', ''they're''),
   (''theyve'', ''they've''),
   (''twas'', '''twas''),
   (''wasnt'', ''wasn't''),
   (''wed've'', ''we'd've''),
   (''we'dve'', ''we'd've''),
   (''weve'', ''we've''),
   (''werent'', ''weren't''),
   (''whatll'', ''what'll''),
   (''whatre'', ''what're''),
   (''whats'', ''what's''),
   (''whatve'', ''what've''),
   (''whens'', ''when's''),
   (''whered'', ''where'd''),
   (''wheres'', ''where's''),
   (''whereve'', ''where've''),
   (''whod'', ''who'd''),
   (''whod've'', ''who'd've''),
   (''who'dve'', ''who'd've''),
   (''wholl'', ''who'll''),
   (''whos'', ''who's''),
   (''whove'', ''who've''),
   (''whyll'', ''why'll''),
   (''whyre'', ''why're''),
   (''whys'', ''why's''),
   (''wont'', ''won't''),
   (''wouldve'', ''would've''),
   (''wouldnt'', ''wouldn't''),
   (''wouldnt've'', ''wouldn't've''),
   (''wouldn'tve'', ''wouldn't've''),
   (''yall'', ''y'all''),
   (''yall'll'', ''y'all'll''),
   (''y'allll'', ''y'all'll''),
   (''yall'd've'', ''y'all'd've''),
   (''y'alld've'', ''y'all'd've''),
   (''y'all'dve'', ''y'all'd've''),
   (''youd'', ''you'd''),
   (''youd've'', ''you'd've''),
   (''you'dve'', ''you'd've''),
   (''youll'', ''you'll''),
   (''youre'', ''you're''),
   (''youve'', ''you've'')]"

definition NUMBER_MAP :: "(string \<times> string) list" where
  "NUMBER_MAP =
  [(''none'', ''0''), (''zero'', ''0''), (''one'', ''1''), (''two'', ''2''),
   (''three'', ''3''), (''four'', ''4''), (''five'', ''5''), (''six'', ''6''),
   (''seven'', ''7''), (''eight'', ''8''), (''nine'', ''9''), (''ten'', ''10'')]"

definition ARTICLES :: "string list" where
  "ARTICLES = [''a'', ''an'', ''the'']"

definition PUNCTUATIONS :: "string list" where
  "PUNCTUATIONS =
  ['';'', ''/'', ''['', '']'', [CHR 0x22], ''{'', ''}'', ''('', '')'', ''='', ''+'',
   [CHR 0x5C], ''_'', ''-'', ''>'', ''<'', ''@'', ''`'', '','', ''?'', ''!'']"

text \<open>
  \<open>COMMA_STRIP\<close> is the pattern \<open>(?<=\d)(\,)+(?=\d)\<close>; \<open>COMMA_STRIP_search s\<close> is
  \<open>re.search(COMMA_STRIP, s) is not None\<close>: somewhere in \<open>s\<close> a digit, one or more
  commas and a digit follow each other.
\<close>

fun COMMA_STRIP_search :: "string \<Rightarrow> bool" where
  "COMMA_STRIP_search [] = False"
| "COMMA_STRIP_search (c # cs) =
     ((isdigit c \<and> startswith cs '','' \<and>
       (case dropWhile (\<lambda>x. x = CHR '','') cs of [] \<Rightarrow> False | d # _ \<Rightarrow> isdigit d))
      \<or> COMMA_STRIP_search cs)"

text \<open>
  \<open>PERIOD_STRIP\<close> is the pattern \<open>(?!<=\d)(\.)(?!\d)\<close>. Its first group is a negative
  look-ahead for the three characters \<open><\<close>, \<open>=\<close> and a digit; where a period follows it
  never finds them, so the pattern matches every period that no digit follows.
  \<open>PERIOD_STRIP_sub count s\<close> is \<open>PERIOD_STRIP.sub('', s, count)\<close> for a positive
  \<open>count\<close>: the first \<open>count\<close> such periods are removed. The source passes
  \<open>re.UNICODE\<close>, which is 32, in the place of \<open>count\<close>.
\<close>

fun PERIOD_STRIP_sub :: "nat \<Rightarrow> string \<Rightarrow> string" where
  "PERIOD_STRIP_sub n [] = []"
| "PERIOD_STRIP_sub n (c # cs) =
     (if 0 < n \<and> c = CHR ''.'' \<and> \<not> (case cs of [] \<Rightarrow> False | d # _ \<Rightarrow> isdigit d)
      then PERIOD_STRIP_sub (n - 1) cs
      else c # PERIOD_STRIP_sub n cs)"

definition re_UNICODE :: nat where
  "re_UNICODE = 32"

definition word_tokenize :: "string \<Rightarrow> string" where
  "word_tokenize word =
     (let word = str_lower word;
          word = str_replace (str_replace (str_replace word '','' []) ''?'' []) '''s'' '' 's''
      in str_strip word)"

definition process_punctuation :: "string \<Rightarrow> string" where
  "process_punctuation in_text =
     (let out_text =
            fold (\<lambda>p out_text.
                    if (str_contains in_text (p @ '' '') \<or> str_contains in_text ('' '' @ p))
                       \<or> COMMA_STRIP_search in_text
                    then str_replace out_text p []
                    else str_replace out_text p '' '')
                 PUNCTUATIONS in_text
      in PERIOD_STRIP_sub re_UNICODE out_text)"

text \<open>
  \<open>process_digit_article\<close> looks a word up with \<open>NUMBER_MAP.setdefault(word, word)\<close>,
  which also stores \<open>word\<close> under itself when it was not a key. A stored word is
  then found as itself, which is what a later look-up of a missing key returns as
  well, so the look-up is modelled on the table as the source writes it.
\<close>

definition process_digit_article :: "string \<Rightarrow> string" where
  "process_digit_article in_text =
     (let temp_text = str_split (str_lower in_text);
          out_text = filter (\<lambda>word. word \<notin> set ARTICLES)
                       (map (\<lambda>word. case map_of NUMBER_MAP word of Some d \<Rightarrow> d | None \<Rightarrow> word)
                            temp_text);
          out_text = map (\<lambda>word. case map_of CONTRACTIONS word of Some c \<Rightarrow> c | None \<Rightarrow> word)
                         out_text
      in str_join '' '' out_text)"

definition answer_processor :: "string \<Rightarrow> string" where
  "answer_processor item =
     (let item = word_tokenize item;
          item = str_strip (str_replace (str_replace item [CHR 0x0A] '' '') [CHR 0x09] '' '');
          item = process_punctuation item
      in process_digit_article item)"


section \<open>Python numbers\<close>

text \<open>
  The exceptions of the source, as values. \<open>RuntimeError\<close> carries which of the
  source's messages it was raised with.
\<close>

datatype runtime_error =
  Fail_to_parse_answer | Duplicated_answer_trigger | Fail_to_parse_rationale | Fail_to_parse_pred

datatype error =
  AssertionError | ZeroDivisionError | NotImplementedError | RuntimeError runtime_error

text \<open>
  A Python \<open>float\<close> is an IEEE 754 double: a number, an infinity or a
  not-a-number. The two zeros are one value here: the source only compares, tests
  for truth, subtracts, divides by non-zero values and takes absolute values, none
  of which tells them apart. Python's \<open>int\<close> and \<open>bool\<close> values that meet floats (1,
  \<open>True\<close>, a length) are the \<open>Finite\<close> values of the same number.
\<close>

datatype pyfloat = Finite real | PInf | NInf | NaN

function bitlen :: "int \<Rightarrow> nat" where
  "bitlen n = (if n \<le> 0 then 0 else Suc (bitlen (n div 2)))"
  by pat_completeness auto
termination
  by (relation "measure nat") auto

declare bitlen.simps [simp del]

definition pow2 :: "int \<Rightarrow> real" where
  "pow2 k = (if 0 \<le> k then 2 ^ nat k else 1 / 2 ^ nat (- k))"

text \<open>\<open>binade a\<close>, for a positive \<open>a\<close>, is the \<open>e\<close> with \<open>2 ^ e \<le> a < 2 ^ (e + 1)\<close>.\<close>

definition binade :: "real \<Rightarrow> int" where
  "binade a =
     (if 1 \<le> a then int (bitlen \<lfloor>a\<rfloor>) - 1
      else let k = int (bitlen \<lfloor>1 / a\<rfloor>)
           in if a * pow2 (k - 1) = 1 then 1 - k else - k)"

definition round_half_even :: "real \<Rightarrow> int" where
  "round_half_even q =
     (let f = \<lfloor>q\<rfloor>; r = q - of_int f
      in if r < 1 / 2 then f else if 1 / 2 < r then f + 1 else if even f then f else f + 1)"

text \<open>
  \<open>rnd q\<close> is the double nearest to \<open>q\<close>, ties to even: 53 bits of precision, the
  smallest exponent -1022 (below it the spacing stays \<open>2 ^ -1074\<close>), and an
  infinity from \<open>2 ^ 1024\<close> on.
\<close>

definition rnd :: "real \<Rightarrow> pyfloat" where
  "rnd q =
     (if q = 0 then Finite 0
      else let a = \<bar>q\<bar>;
               e = max (binade a) (- 1022);
               u = pow2 (e - 52);
               v = of_int (round_half_even (a / u)) * u
           in if pow2 1024 \<le> v then (if q < 0 then NInf else PInf)
              else Finite (if q < 0 then - v else v))"

definition float_of_nat :: "nat \<Rightarrow> pyfloat" where
  "float_of_nat n = rnd (of_nat n)"

fun fadd :: "pyfloat \<Rightarrow> pyfloat \<Rightarrow> pyfloat" where
  "fadd (Finite x) (Finite y) = rnd (x + y)"
| "fadd NaN _ = NaN"
| "fadd _ NaN = NaN"
| "fadd PInf NInf = NaN"
| "fadd NInf PInf = NaN"
| "fadd PInf _ = PInf"
| "fadd NInf _ = NInf"
| "fadd (Finite x) y = y"

fun fneg :: "pyfloat \<Rightarrow> pyfloat" where
  "fneg (Finite x) = Finite (- x)"
| "fneg PInf = NInf"
| "fneg NInf = PInf"
| "fneg NaN = NaN"

definition fsub :: "pyfloat \<Rightarrow> pyfloat \<Rightarrow> pyfloat" where
  "fsub a b = fadd a (fneg b)"

fun fabs :: "pyfloat \<Rightarrow> pyfloat" where
  "fabs (Finite x) = Finite \<bar>x\<bar>"
| "fabs PInf = PInf"
| "fabs NInf = PInf"
| "fabs NaN = NaN"

text \<open>
  \<open>a / b\<close> for a divisor that is not zero. Python raises \<open>ZeroDivisionError\<close> on a
  zero divisor; where the source can divide by zero the model tests the divisor
  before it calls \<open>fdiv\<close>.
\<close>

fun fdiv :: "pyfloat \<Rightarrow> pyfloat \<Rightarrow> pyfloat" where
  "fdiv (Finite x) (Finite y) = rnd (x / y)"
| "fdiv NaN _ = NaN"
| "fdiv _ NaN = NaN"
| "fdiv (Finite x) _ = Finite 0"
| "fdiv PInf (Finite y) = (if y < 0 then NInf else PInf)"
| "fdiv NInf (Finite y) = (if y < 0 then PInf else NInf)"
| "fdiv _ _ = NaN"

fun flt :: "pyfloat \<Rightarrow> pyfloat \<Rightarrow> bool" where
  "flt (Finite x) (Finite y) = (x < y)"
| "flt NaN _ = False"
| "flt _ NaN = False"
| "flt NInf b = (b \<noteq> NInf)"
| "flt a PInf = (a \<noteq> PInf)"
| "flt _ _ = False"

definition fle :: "pyfloat \<Rightarrow> pyfloat \<Rightarrow> bool" where
  "fle a b = (a \<noteq> NaN \<and> b \<noteq> NaN \<and> (a = b \<or> flt a b))"

text \<open>
  \<open>min(a, b)\<close> and \<open>max(a, b)\<close> return the first argument unless the second is
  strictly smaller, or strictly greater; \<open>sum(xs)\<close> adds from the left, starting
  from 0; the truth value of a float is that it is not zero.
\<close>

definition pymin :: "pyfloat \<Rightarrow> pyfloat \<Rightarrow> pyfloat" where
  "pymin a b = (if flt b a then b else a)"

definition pymax :: "pyfloat \<Rightarrow> pyfloat \<Rightarrow> pyfloat" where
  "pymax a b = (if flt a b then b else a)"

definition pysum :: "pyfloat list \<Rightarrow> pyfloat" where
  "pysum xs = foldl fadd (Finite 0) xs"

definition truthy :: "pyfloat \<Rightarrow> bool" where
  "truthy a = (a \<noteq> Finite 0)"

definition float_of_bool :: "bool \<Rightarrow> pyfloat" where
  "float_of_bool b = (if b then Finite 1 else Finite 0)"


subsection \<open>\<open>float(text)\<close>\<close>

text \<open>
  \<open>float\<close> of a string: white space around the number is dropped (of the white
  space of \<open>isspace\<close>, \<open>float\<close> does not drop the four separators 0x1C to 0x1F), an
  underscore may stand between two digits, and what is left is a sign and then
  either a decimal number with an optional exponent or one of \<open>inf\<close>, \<open>infinity\<close> and
  \<open>nan\<close> in any case. The number read is rounded to the nearest double. \<open>None\<close> is
  the \<open>ValueError\<close> of a string that is no number, which both callers catch.
\<close>

definition float_space :: "char \<Rightarrow> bool" where
  "float_space c =
     (let n = (of_char c :: nat) in (9 \<le> n \<and> n \<le> 13) \<or> n = 32 \<or> n = 133 \<or> n = 160)"

fun drop_underscores :: "char \<Rightarrow> string \<Rightarrow> string option" where
  "drop_underscores prev [] = (if prev = CHR ''_'' then None else Some [])"
| "drop_underscores prev (c # cs) =
     (if c = CHR ''_'' then (if isdigit prev then drop_underscores c cs else None)
      else if prev = CHR ''_'' \<and> \<not> isdigit c then None
      else map_option ((#) c) (drop_underscores c cs))"

definition digits_value :: "string \<Rightarrow> int" where
  "digits_value ds = foldl (\<lambda>acc c. 10 * acc + (of_char c - 48)) 0 ds"

definition pow10 :: "int \<Rightarrow> real" where
  "pow10 k = (if 0 \<le> k then 10 ^ nat k else 1 / 10 ^ nat (- k))"

definition parse_exponent :: "string \<Rightarrow> int option" where
  "parse_exponent r =
     (case r of
        [] \<Rightarrow> Some 0
      | c # t \<Rightarrow>
          if c = CHR ''e'' \<or> c = CHR ''E'' then
            (let (neg, ds) = (case t of
                                [] \<Rightarrow> (False, [])
                              | d # u \<Rightarrow> if d = CHR ''+'' then (False, u)
                                         else if d = CHR ''-'' then (True, u)
                                         else (False, t))
             in if ds \<noteq> [] \<and> list_all isdigit ds
                then Some (if neg then - digits_value ds else digits_value ds)
                else None)
          else None)"

definition parse_decimal :: "string \<Rightarrow> real option" where
  "parse_decimal s =
     (let ip = takeWhile isdigit s;
          r1 = dropWhile isdigit s;
          (fp, r2) = (case r1 of
                        [] \<Rightarrow> ([], [])
                      | c # t \<Rightarrow> if c = CHR ''.'' then (takeWhile isdigit t, dropWhile isdigit t)
                                 else ([], r1))
      in if ip = [] \<and> fp = [] then None
         else case parse_exponent r2 of
                None \<Rightarrow> None
              | Some e \<Rightarrow> Some (of_int (digits_value (ip @ fp)) * pow10 (e - int (length fp))))"

definition parse_inf_or_nan :: "string \<Rightarrow> pyfloat option" where
  "parse_inf_or_nan s =
     (let t = str_lower s
      in if t = ''inf'' \<or> t = ''infinity'' then Some PInf
         else if t = ''nan'' then Some NaN
         else None)"

definition float_str :: "string \<Rightarrow> pyfloat option" where
  "float_str text =
     (let s = rev (dropWhile float_space (rev (dropWhile float_space text)))
      in case drop_underscores (CHR 0x00) s of
           None \<Rightarrow> None
         | Some u \<Rightarrow>
             (let (neg, body) = (case u of
                                   [] \<Rightarrow> (False, [])
                                 | c # t \<Rightarrow> if c = CHR ''-'' then (True, t)
                                            else if c = CHR ''+'' then (False, t)
                                            else (False, u))
              in case parse_decimal body of
                   Some q \<Rightarrow> Some (rnd (if neg then - q else q))
                 | None \<Rightarrow> map_option (\<lambda>v. if neg then fneg v else v) (parse_inf_or_nan body)))"


section \<open>The soft accuracy of the ten answers\<close>

text \<open>
  Class \<open>TextVQAAccuracyEvaluator\<close>. \<open>unique_answers\<close> is a Python set; the scores
  are stored under their answers, so the order in which the set is gone through
  does not show in the result, and the model takes the order of first occurrence.
  \<open>answer_score\<close> is the body of the loop over \<open>unique_answers\<close>, the value stored
  for one answer.
\<close>

definition answer_score :: "(nat \<times> string) list \<Rightarrow> string \<Rightarrow> pyfloat" where
  "answer_score gt_answers unique_answer =
     (let accs = map (\<lambda>gt_answer.
                        let other_answers = filter (\<lambda>item. item \<noteq> gt_answer) gt_answers;
                            matching_answers = filter (\<lambda>item. snd item = unique_answer) other_answers
                        in pymin (Finite 1) (fdiv (float_of_nat (length matching_answers)) (Finite 3)))
                     gt_answers
      in fdiv (pysum accs) (float_of_nat (length accs)))"

definition compute_answer_scores :: "string list \<Rightarrow> error + (string \<rightharpoonup> pyfloat)" where
  "compute_answer_scores raw_answers =
     (let answers = map answer_processor raw_answers
      in if length answers \<noteq> 10 then Inl AssertionError
         else let gt_answers = enumerate 0 answers;
                  unique_answers = remdups answers
              in Inr (fold (\<lambda>unique_answer unique_answer_scores.
                              unique_answer_scores(unique_answer \<mapsto> answer_score gt_answers unique_answer))
                           unique_answers Map.empty))"

record entry =
  pred_answer :: string
  gt_answers :: "string list"

text \<open>
  \<open>entry_score\<close> is the body of the loop of \<open>eval_pred_list\<close>, the score of one
  entry; \<open>eval_pred_list\<close> divides the sum of the scores by their number, which
  raises \<open>ZeroDivisionError\<close> for an empty list.
\<close>

definition entry_score :: "entry \<Rightarrow> error + pyfloat" where
  "entry_score e =
     (let pred = answer_processor (pred_answer e)
      in case compute_answer_scores (gt_answers e) of
           Inl err \<Rightarrow> Inl err
         | Inr unique_answer_scores \<Rightarrow>
             Inr (case unique_answer_scores pred of Some score \<Rightarrow> score | None \<Rightarrow> Finite 0))"

fun pred_scores_of :: "entry list \<Rightarrow> error + pyfloat list" where
  "pred_scores_of [] = Inr []"
| "pred_scores_of (e # es) =
     (case entry_score e of
        Inl err \<Rightarrow> Inl err
      | Inr score \<Rightarrow> (case pred_scores_of es of Inl err \<Rightarrow> Inl err | Inr scores \<Rightarrow> Inr (score # scores)))"

definition eval_pred_list :: "entry list \<Rightarrow> error + pyfloat" where
  "eval_pred_list pred_list =
     (case pred_scores_of pred_list of
        Inl err \<Rightarrow> Inl err
      | Inr pred_scores \<Rightarrow>
          if length pred_scores = 0 then Inl ZeroDivisionError
          else Inr (fdiv (pysum pred_scores) (float_of_nat (length pred_scores))))"


section \<open>The scorers\<close>

text \<open>\<open>option_candidate\<close> is the list of the one-letter strings \<open>A\<close> to \<open>N\<close>.\<close>

definition option_candidate :: "string list" where
  "option_candidate = map (\<lambda>c. [c]) ''ABCDEFGHIJKLMN''"

text \<open>
  \<open>math_score\<close> and its \<open>_to_float\<close>. The guard \<open>prediction_float is not None and
  target_float\<close> holds when the prediction is a number and the target is a number
  that is not zero, so the division that follows has a non-zero divisor.
\<close>

definition math_to_float :: "string \<Rightarrow> pyfloat option" where
  "math_to_float text =
     (let text = str_replace text ''degrees'' [];
          text = str_replace text ''degree'' [];
          text = str_replace text (CHR 0x5C # ''angle'') [];
          text = str_replace text ''degrees'' [];
          text = str_replace text [CHR 0xB0] [];
          text = str_replace text ''%'' [];
          text = str_replace text ''cm'' []
      in float_str text)"

definition math_score :: "string \<Rightarrow> string \<Rightarrow> pyfloat \<Rightarrow> bool" where
  "math_score target prediction max_relative_change =
     (let prediction_float = math_to_float prediction;
          target_float = math_to_float target
      in case (prediction_float, target_float) of
           (Some p, Some t) \<Rightarrow>
             if truthy t
             then fle (fdiv (fabs (fsub p t)) (fabs t)) max_relative_change
             else str_lower prediction = str_lower target
         | _ \<Rightarrow> str_lower prediction = str_lower target)"

definition relaxed_to_float :: "string \<Rightarrow> pyfloat option" where
  "relaxed_to_float text =
     (if endswith text ''%'' then float_str (str_rstrip_chars text ''%'') else float_str text)"

definition relaxed_correctness :: "string \<Rightarrow> string \<Rightarrow> pyfloat \<Rightarrow> bool" where
  "relaxed_correctness target prediction max_relative_change =
     (if length target = 4 \<and> startswith target ''20''
      then str_lower prediction = str_lower target
      else let prediction_float = relaxed_to_float prediction;
               target_float = relaxed_to_float target
           in case (prediction_float, target_float) of
                (Some p, Some t) \<Rightarrow>
                  if truthy t
                  then fle (fdiv (fabs (fsub p t)) (fabs t)) max_relative_change
                  else str_lower prediction = str_lower target
              | _ \<Rightarrow> str_lower prediction = str_lower target)"

text \<open>
  \<open>levenshtein_row\<close> is the inner loop of \<open>levenshtein_distance\<close>: the new row
  \<open>distances'\<close> (the source's \<open>distances_\<close>) for the character \<open>c2\<close> at index \<open>i2\<close>. Both rows have
  \<open>len(s1) + 1\<close> entries, so every index read is in range.
\<close>

definition levenshtein_row :: "char \<Rightarrow> nat \<Rightarrow> string \<Rightarrow> nat list \<Rightarrow> nat list" where
  "levenshtein_row c2 i2 s1 distances =
     fold (\<lambda>(i1, c1) distances'.
             if c1 = c2 then distances' @ [distances ! i1]
             else distances' @ [1 + min (distances ! i1) (min (distances ! (i1 + 1)) (last distances'))])
          (enumerate 0 s1) [i2 + 1]"

definition levenshtein_distance :: "string \<Rightarrow> string \<Rightarrow> nat" where
  "levenshtein_distance s1 s2 =
     (let (s1, s2) = (if length s1 > length s2 then (s2, s1) else (s1, s2));
          distances = fold (\<lambda>(i2, c2) distances. levenshtein_row c2 i2 s1 distances)
                           (enumerate 0 s2) [0 ..< length s1 + 1]
      in last distances)"

text \<open>\<open>multi_choice_score\<close> returns 1 or a truth value; 1 is \<open>True\<close> here.\<close>

definition multi_choice_score :: "string \<Rightarrow> string \<Rightarrow> bool" where
  "multi_choice_score answer_pred answer_gt =
     (let answer_pred = str_strip answer_pred;
          answer_gt = str_strip answer_gt
      in if str_lower answer_pred = str_lower answer_gt then True
         else let answer_pred = (if length answer_pred \<ge> 2 \<and> answer_pred ! 1 = CHR ''.''
                                 then [answer_pred ! 0] else answer_pred);
                  answer_pred = (if length answer_pred \<ge> 3 \<and> answer_pred ! 0 = CHR ''(''
                                    \<and> answer_pred ! 2 = CHR '')''
                                 then [answer_pred ! 1] else answer_pred)
              in str_lower answer_pred = str_lower answer_gt)"


section \<open>Parsing answers\<close>

text \<open>
  \<open>re.search(r'(Final answer:|Answer:)\s*(.*)', text, re.IGNORECASE)\<close>: the first
  place of \<open>text\<close> where one of the two triggers stands, in any case. The result is
  the trigger as the text writes it (group 1) and the text after it; group 2 is that
  text without the white space it starts with, up to the end of its line.
  The trigger of version \<open>zh\<close> is written with code points above 255, which no text
  of the model holds, so that search finds nothing.
\<close>

fun search_trigger :: "string \<Rightarrow> (string \<times> string) option" where
  "search_trigger [] = None"
| "search_trigger (c # cs) =
     (if startswith (str_lower (c # cs)) ''final answer:''
      then Some (take 13 (c # cs), drop 13 (c # cs))
      else if startswith (str_lower (c # cs)) ''answer:''
      then Some (take 7 (c # cs), drop 7 (c # cs))
      else search_trigger cs)"

definition parse_answer :: "string \<Rightarrow> string \<Rightarrow> error + (string \<times> string)" where
  "parse_answer text version =
     (if version \<noteq> ''en'' \<and> version \<noteq> ''zh'' then Inl NotImplementedError
      else case (if version = ''en'' then search_trigger text else None) of
             None \<Rightarrow> Inl (RuntimeError Fail_to_parse_answer)
           | Some (group1, rest) \<Rightarrow>
               (let group2 = takeWhile (\<lambda>c. c \<noteq> CHR 0x0A) (dropWhile isspace rest);
                    answer_trigger = str_strip group1;
                    answer = str_strip (str_strip_chars (str_strip group2) ''*'')
                in if str_count text answer_trigger > 2
                   then Inl (RuntimeError Duplicated_answer_trigger)
                   else let rationale =
                              str_strip (str_strip_chars
                                (str_strip (split_sep_first (str_lower text) (str_lower answer_trigger)))
                                ''*'')
                        in if length rationale = 0 then Inl (RuntimeError Fail_to_parse_rationale)
                           else Inr (rationale, answer)))"

definition post_process :: "string \<Rightarrow> error + string" where
  "post_process pred =
     (let pred = str_upper (str_strip_chars (str_strip pred) ''*'')
      in if length pred = 1 then Inr pred
         else if length pred > 1 \<and> \<not> isalpha (pred ! 1) \<and> [pred ! 0] \<in> set option_candidate
         then Inr [pred ! 0]
         else if length pred > 2 \<and> pred ! 0 = CHR ''('' \<and> pred ! 2 = CHR '')''
                 \<and> [pred ! 1] \<in> set option_candidate
         then Inr [pred ! 1]
         else Inl (RuntimeError Fail_to_parse_pred))"


section \<open>The dispatcher\<close>

text \<open>
  \<open>check_answer\<close> with the global \<open>evaluator_cache\<close> passed in and returned. The
  first statement reads the cache into \<open>accuracy\<close> when the pair is a key; the
  variable is assigned again before it is read. The early return stores nothing.
  The defaults of the two tolerances are the doubles of 0.05 and 0.001, and the
  threshold is the double of 0.9. \<open>math_score\<close> is called with the prediction in
  the place of its target, as the source does.
\<close>

type_synonym cache = "(string \<times> string) \<rightharpoonup> nat"

definition vqa_accuracy :: "string \<Rightarrow> string \<Rightarrow> pyfloat \<Rightarrow> error + pyfloat" where
  "vqa_accuracy answer_pred answer_gt accuracy =
     (let merged_outputs = [\<lparr>pred_answer = answer_pred, gt_answers = replicate 10 answer_gt\<rparr>]
      in case eval_pred_list merged_outputs of
           Inl err \<Rightarrow> Inl err
         | Inr v \<Rightarrow>
             (let accuracy = pymax accuracy v;
                  accuracy = (if length (answer_processor answer_pred) = 0 then Finite 0 else accuracy);
                  accuracy = (if length (answer_processor answer_gt) = 0 then Finite 0 else accuracy)
              in Inr accuracy))"

definition anls_accuracy :: "string \<Rightarrow> string \<Rightarrow> pyfloat \<Rightarrow> pyfloat" where
  "anls_accuracy answer_pred answer_gt accuracy =
     (let gt_answer = str_join '' '' (str_split (str_lower (str_strip answer_gt)));
          det_answer = str_join '' '' (str_split (str_lower (str_strip answer_pred)));
          dist = levenshtein_distance gt_answer det_answer;
          len = max (length (str_upper answer_gt)) (length (str_upper answer_pred))
      in pymax accuracy (fdiv (float_of_nat dist) (float_of_nat len)))"

text \<open>
  The four blocks that follow the \<open>vqa_score\<close> block, each with its test of the
  mode: a block returns the accuracy it was given when its mode is not enabled.
\<close>

definition relaxed_block :: "string set \<Rightarrow> string \<Rightarrow> string \<Rightarrow> pyfloat \<Rightarrow> pyfloat" where
  "relaxed_block mode answer_pred answer_gt accuracy =
     (if ''relaxed_accuracy'' \<in> mode
      then pymax accuracy (float_of_bool (relaxed_correctness answer_gt answer_pred (rnd (5 / 100))))
      else accuracy)"

definition anls_block :: "string set \<Rightarrow> string \<Rightarrow> string \<Rightarrow> pyfloat \<Rightarrow> pyfloat" where
  "anls_block mode answer_pred answer_gt accuracy =
     (if ''anls'' \<in> mode then anls_accuracy answer_pred answer_gt accuracy else accuracy)"

definition mc_block :: "string set \<Rightarrow> string \<Rightarrow> string \<Rightarrow> pyfloat \<Rightarrow> pyfloat" where
  "mc_block mode answer_pred answer_gt accuracy =
     (if ''mc_score'' \<in> mode
      then pymax accuracy (float_of_bool (multi_choice_score answer_pred answer_gt))
      else accuracy)"

definition math_block :: "string set \<Rightarrow> string \<Rightarrow> string \<Rightarrow> pyfloat \<Rightarrow> pyfloat" where
  "math_block mode answer_pred answer_gt accuracy =
     (if ''math_score'' \<in> mode
      then pymax accuracy (float_of_bool (math_score answer_pred answer_gt (rnd (1 / 1000))))
      else accuracy)"

definition check_answer ::
  "cache \<Rightarrow> string \<Rightarrow> string \<Rightarrow> string set \<Rightarrow> error + (nat \<times> cache)" where
  "check_answer evaluator_cache answer_pred answer_gt mode =
     (let accuracy = (if (answer_pred, answer_gt) \<in> dom evaluator_cache
                      then evaluator_cache (answer_pred, answer_gt) else None)
      in if str_lower answer_pred = str_lower answer_gt then Inr (1, evaluator_cache)
         else
           case (if ''vqa_score'' \<in> mode then vqa_accuracy answer_pred answer_gt (Finite 0)
                 else Inr (Finite 0)) of
             Inl err \<Rightarrow> Inl err
           | Inr accuracy \<Rightarrow>
               (let accuracy = relaxed_block mode answer_pred answer_gt accuracy;
                    accuracy = anls_block mode answer_pred answer_gt accuracy;
                    accuracy = mc_block mode answer_pred answer_gt accuracy;
                    accuracy = math_block mode answer_pred answer_gt accuracy;
                    accuracy = (if flt (rnd (9 / 10)) accuracy then 1 else 0 :: nat)
                in Inr (accuracy, evaluator_cache((answer_pred, answer_gt) \<mapsto> accuracy))))"

section \<open>The properties as the specification words them\<close>

text \<open>
  The classic edit distance by its recursion on the two strings: dropping a
  character, adding one and replacing one by another cost 1 each, and a character
  that stays costs nothing.
\<close>

fun lev :: "'a list \<Rightarrow> 'a list \<Rightarrow> nat" where
  "lev [] ys = length ys"
| "lev xs [] = length xs"
| "lev (x # xs) (y # ys) =
     min (min (lev xs (y # ys) + 1) (lev (x # xs) ys + 1)) (lev xs ys + (if x = y then 0 else 1))"

text \<open>
  The leave-one-out agreement of a candidate with a list of answers: each answer
  in turn is the query, the count is of the other answers equal to the candidate,
  a trial gives \<open>min(1, count / 3)\<close>, and the result is the average of the trials; a
  candidate equal to none of the answers gets 0.
\<close>

definition leave_one_out :: "string \<Rightarrow> string list \<Rightarrow> pyfloat" where
  "leave_one_out candidate answers =
     (if candidate \<in> set answers
      then fdiv (pysum (map (\<lambda>query.
                   pymin (Finite 1)
                     (fdiv (float_of_nat (length (filter (\<lambda>other. other \<noteq> query \<and> answers ! other = candidate)
                                                    [0 ..< length answers])))
                           (Finite 3)))
                 [0 ..< length answers]))
                (float_of_nat (length answers))
      else Finite 0)"

section \<open>Properties\<close>

subsection \<open>The answer processor on given inputs\<close>

text \<open>
  Claim C6. The answer processor turns \<open>Two dogs, a cat.\<close> into \<open>2 dogs cat\<close>: the
  comma goes, the article goes, the number word becomes its digit and the period
  at the end, which no digit follows, goes.
\<close>

theorem answer_processor_two_dogs:
  "answer_processor ''Two dogs, a cat.'' = ''2 dogs cat''"
  by code_simp

subsection \<open>Parsing a final answer\<close>

text \<open>
  Claim C9. \<open>parse_answer\<close> of \<open>The sky is blue. Final answer: blue\<close> in version
  \<open>en\<close> returns the rationale \<open>the sky is blue.\<close> and the answer \<open>blue\<close>.
\<close>

theorem parse_answer_sky:
  "parse_answer ''The sky is blue. Final answer: blue'' ''en''
     = Inr (''the sky is blue.'', ''blue'')"
  by code_simp


subsection \<open>The edit distance\<close>

lemma lev_Nil2 [simp]: "lev xs [] = length xs"
  by (cases xs) simp_all

lemma lev_sym: "lev xs ys = lev ys xs"
  by (induction xs ys rule: lev.induct) (simp_all add: min.commute min.left_commute eq_commute)

lemma lev_ins_le: "lev xs (y # ys) \<le> lev xs ys + 1"
  by (cases xs) simp_all

lemma lev_del_le: "lev (x # xs) ys \<le> lev xs ys + 1"
  by (cases ys) simp_all

lemma lev_cons_lower: "lev xs ys \<le> lev (x # xs) ys + 1"
proof (induction ys arbitrary: xs x)
  case Nil
  then show ?case by simp
next
  case (Cons y ys)
  have a: "lev xs (y # ys) \<le> lev xs ys + 1" by (rule lev_ins_le)
  have b: "lev xs ys \<le> lev (x # xs) ys + 1" by (rule Cons.IH)
  show ?case using a b by (simp add: min_def)
qed


lemma min9_gen:
  fixes A1 A2 A3 A4 A5 A6 A7 A8 A9 c d e :: nat
  shows "min (min (min (min (A1 + c) (A2 + c)) (A3 + d) + c)
                  (min (min (A4 + c) (A5 + c)) (A6 + d) + c))
             (min (min (A7 + c) (A8 + c)) (A9 + d) + e)
       = min (min (min (min (A1 + c) (A4 + c)) (A7 + e) + c)
                  (min (min (A2 + c) (A5 + c)) (A8 + e) + c))
             (min (min (A3 + c) (A6 + c)) (A9 + e) + d)"
  by (rule antisym; simp add: min_add_distrib_left min_add_distrib_right min_le_iff_disj)

lemmas min9 = min9_gen [where c = 1]

lemma lev_snoc:
  "lev (xs @ [x]) (ys @ [y]) =
     min (min (lev xs (ys @ [y]) + 1) (lev (xs @ [x]) ys + 1)) (lev xs ys + (if x = y then 0 else 1))"
proof (induction "length xs + length ys" arbitrary: xs ys rule: less_induct)
  case less
  show ?case
  proof (cases xs)
    case Nil
    note xs = Nil
    show ?thesis
    proof (cases ys)
      case Nil
      with xs show ?thesis by simp
    next
      case (Cons b ys')
      have ih: "lev ([] @ [x]) (ys' @ [y]) =
        min (min (lev [] (ys' @ [y]) + 1) (lev ([] @ [x]) ys' + 1)) (lev [] ys' + (if x = y then 0 else 1))"
        by (rule less) (simp add: xs Cons)
      show ?thesis using ih unfolding xs Cons
        by (cases ys') (simp_all add: min_def)
    qed
  next
    case (Cons a xs')
    note xs = Cons
    show ?thesis
    proof (cases ys)
      case Nil
      have ih: "lev (xs' @ [x]) ([] @ [y]) =
        min (min (lev xs' ([] @ [y]) + 1) (lev (xs' @ [x]) [] + 1)) (lev xs' [] + (if x = y then 0 else 1))"
        by (rule less) (simp add: xs Nil)
      show ?thesis using ih unfolding xs Nil
        by (cases xs') (simp_all add: min_def)
    next
      case (Cons b ys')
      have ih1: "lev (xs' @ [x]) ((b # ys') @ [y]) =
        min (min (lev xs' ((b # ys') @ [y]) + 1) (lev (xs' @ [x]) (b # ys') + 1))
            (lev xs' (b # ys') + (if x = y then 0 else 1))"
        by (rule less) (simp add: xs Cons)
      have ih2: "lev ((a # xs') @ [x]) (ys' @ [y]) =
        min (min (lev (a # xs') (ys' @ [y]) + 1) (lev ((a # xs') @ [x]) ys' + 1))
            (lev (a # xs') ys' + (if x = y then 0 else 1))"
        by (rule less) (simp add: xs Cons)
      have ih3: "lev (xs' @ [x]) (ys' @ [y]) =
        min (min (lev xs' (ys' @ [y]) + 1) (lev (xs' @ [x]) ys' + 1))
            (lev xs' ys' + (if x = y then 0 else 1))"
        by (rule less) (simp add: xs Cons)
      have r2: "lev (a # xs' @ [x]) (b # ys') =
        min (min (lev (xs' @ [x]) (b # ys') + 1) (lev (a # xs' @ [x]) ys' + 1))
            (lev (xs' @ [x]) ys' + (if a = b then 0 else 1))" by simp
      have r1: "lev (a # xs') (b # ys' @ [y]) =
        min (min (lev xs' (b # ys' @ [y]) + 1) (lev (a # xs') (ys' @ [y]) + 1))
            (lev xs' (ys' @ [y]) + (if a = b then 0 else 1))" by simp
      have r3: "lev (a # xs') (b # ys') =
        min (min (lev xs' (b # ys') + 1) (lev (a # xs') ys' + 1))
            (lev xs' ys' + (if a = b then 0 else 1))" by simp
      have l: "lev (a # xs' @ [x]) (b # ys' @ [y]) =
        min (min (lev (xs' @ [x]) (b # ys' @ [y]) + 1) (lev (a # xs' @ [x]) (ys' @ [y]) + 1))
            (lev (xs' @ [x]) (ys' @ [y]) + (if a = b then 0 else 1))" by simp
      show ?thesis unfolding xs Cons append_Cons l r1 r2 r3
        unfolding ih1 [unfolded append_Cons] ih2 [unfolded append_Cons] ih3
        by (rule min9)
    qed
  qed
qed


lemma lev_rev: "lev (rev xs) (rev ys) = lev xs ys"
  by (induction xs ys rule: lev.induct) (simp_all add: lev_snoc)

lemma lev_snoc_lower1: "lev xs ys \<le> lev (xs @ [x]) ys + 1"
proof -
  have "lev xs ys = lev (rev xs) (rev ys)" by (simp add: lev_rev)
  also have "\<dots> \<le> lev (x # rev xs) (rev ys) + 1" by (rule lev_cons_lower)
  also have "lev (x # rev xs) (rev ys) = lev (rev (xs @ [x])) (rev ys)" by simp
  also have "\<dots> = lev (xs @ [x]) ys" by (rule lev_rev)
  finally show ?thesis .
qed

lemma lev_snoc_lower2: "lev xs ys \<le> lev xs (ys @ [y]) + 1"
  using lev_snoc_lower1 [of ys xs y] by (simp add: lev_sym)

lemma lev_snoc_if:
  "lev (xs @ [x]) (ys @ [y]) =
     (if x = y then lev xs ys
      else 1 + min (lev xs ys) (min (lev (xs @ [x]) ys) (lev xs (ys @ [y]))))"
proof (cases "x = y")
  case True
  show ?thesis
    using lev_snoc_lower1 [of xs ys y] lev_snoc_lower2 [of xs ys y] True
    by (simp add: lev_snoc min_def)
next
  case False
  then show ?thesis
    by (simp add: lev_snoc min_def)
qed

lemma levenshtein_row_prefix:
  assumes d: "distances = map (\<lambda>i. lev (take i s1) pre) [0 ..< length s1 + 1]"
    and k: "k \<le> length s1"
  shows "fold (\<lambda>(i1, c1) distances'.
             if c1 = c2 then distances' @ [distances ! i1]
             else distances' @ [1 + min (distances ! i1) (min (distances ! (i1 + 1)) (last distances'))])
          (enumerate 0 (take k s1)) [length pre + 1]
         = map (\<lambda>i. lev (take i s1) (pre @ [c2])) [0 ..< k + 1]"
  using k
proof (induction k)
  case 0
  show ?case by simp
next
  case (Suc k)
  then have klt: "k < length s1" by simp
  have tk: "take (Suc k) s1 = take k s1 @ [s1 ! k]"
    using klt by (simp add: take_Suc_conv_app_nth)
  have lk: "length (take k s1) = k" using klt by (simp add: min_def)
  have en: "enumerate 0 (take (Suc k) s1) = enumerate 0 (take k s1) @ [(k, s1 ! k)]"
    unfolding tk using klt by (simp add: enumerate_append_eq min_def)
  have ih: "fold (\<lambda>(i1, c1) distances'.
             if c1 = c2 then distances' @ [distances ! i1]
             else distances' @ [1 + min (distances ! i1) (min (distances ! (i1 + 1)) (last distances'))])
          (enumerate 0 (take k s1)) [length pre + 1]
         = map (\<lambda>i. lev (take i s1) (pre @ [c2])) [0 ..< k + 1]"
    using Suc by simp
  have dk: "distances ! k = lev (take k s1) pre"
    unfolding d using klt by (simp add: nth_append del: upt_Suc)
  have dk1: "distances ! (k + 1) = lev (take k s1 @ [s1 ! k]) pre"
    unfolding d using klt tk by (simp add: nth_append del: upt_Suc)
  have la: "last (map (\<lambda>i. lev (take i s1) (pre @ [c2])) [0 ..< k + 1]) = lev (take k s1) (pre @ [c2])"
    by simp
  have new: "lev (take k s1 @ [s1 ! k]) (pre @ [c2]) =
     (if s1 ! k = c2 then distances ! k
      else 1 + min (distances ! k) (min (distances ! (k + 1)) (lev (take k s1) (pre @ [c2]))))"
    unfolding dk dk1 by (simp add: lev_snoc_if)
  show ?case
    unfolding en fold_append comp_def ih
    using new la tk by simp
qed

lemma levenshtein_row_correct:
  assumes "distances = map (\<lambda>i. lev (take i s1) pre) [0 ..< length s1 + 1]"
  shows "levenshtein_row c2 (length pre) s1 distances
         = map (\<lambda>i. lev (take i s1) (pre @ [c2])) [0 ..< length s1 + 1]"
  unfolding levenshtein_row_def
  using levenshtein_row_prefix [OF assms, of "length s1" c2] by simp

lemma levenshtein_rows:
  "j \<le> length s2 \<Longrightarrow>
   fold (\<lambda>(i2, c2) distances. levenshtein_row c2 i2 s1 distances)
        (enumerate 0 (take j s2)) [0 ..< length s1 + 1]
   = map (\<lambda>i. lev (take i s1) (take j s2)) [0 ..< length s1 + 1]"
proof (induction j)
  case 0
  have "map (\<lambda>i. lev (take i s1) []) [0 ..< length s1 + 1] = map (\<lambda>i. i) [0 ..< length s1 + 1]"
    by (rule map_cong) auto
  then show ?case by simp
next
  case (Suc j)
  then have jlt: "j < length s2" by simp
  have tj: "take (Suc j) s2 = take j s2 @ [s2 ! j]"
    using jlt by (simp add: take_Suc_conv_app_nth)
  have lj: "length (take j s2) = j" using jlt by (simp add: min_def)
  have en: "enumerate 0 (take (Suc j) s2) = enumerate 0 (take j s2) @ [(j, s2 ! j)]"
    unfolding tj using jlt by (simp add: enumerate_append_eq min_def)
  have ih: "fold (\<lambda>(i2, c2) distances. levenshtein_row c2 i2 s1 distances)
        (enumerate 0 (take j s2)) [0 ..< length s1 + 1]
     = map (\<lambda>i. lev (take i s1) (take j s2)) [0 ..< length s1 + 1]"
    using Suc by simp
  have row: "levenshtein_row (s2 ! j) (length (take j s2)) s1
               (map (\<lambda>i. lev (take i s1) (take j s2)) [0 ..< length s1 + 1])
             = map (\<lambda>i. lev (take i s1) (take j s2 @ [s2 ! j])) [0 ..< length s1 + 1]"
    by (rule levenshtein_row_correct) simp
  have step: "fold (\<lambda>(i2, c2) distances. levenshtein_row c2 i2 s1 distances)
        (enumerate 0 (take (Suc j) s2)) [0 ..< length s1 + 1]
     = levenshtein_row (s2 ! j) j s1
         (fold (\<lambda>(i2, c2) distances. levenshtein_row c2 i2 s1 distances)
            (enumerate 0 (take j s2)) [0 ..< length s1 + 1])"
    unfolding en by (simp del: upt_Suc)
  show ?case
    unfolding step ih using row unfolding lj tj .
qed

lemma levenshtein_fold:
  "last (fold (\<lambda>(i2, c2) distances. levenshtein_row c2 i2 s1 distances)
          (enumerate 0 s2) [0 ..< length s1 + 1]) = lev s1 s2"
  using levenshtein_rows [of "length s2" s2 s1] by simp


lemma bitlen_numeral [simp]: "bitlen (numeral k) = Suc (bitlen (numeral k div 2))"
  by (subst bitlen.simps) simp

lemma bitlen_0 [simp]: "bitlen 0 = 0"
  by (subst bitlen.simps) simp

lemma bitlen_1 [simp]: "bitlen 1 = 1"
  by (subst bitlen.simps) simp

lemmas rnd_eval = rnd_def binade_def pow2_def round_half_even_def Let_def

lemma rnd_3_7: "rnd (3 / 7) = Finite (7720456504063707 / 2 ^ 54)"
  by (simp add: rnd_eval)

lemma rnd_small_nat:
  "rnd 1 = Finite 1" "rnd 3 = Finite 3" "rnd 6 = Finite 6" "rnd 7 = Finite 7" "rnd 10 = Finite 10"
  by (simp_all add: rnd_eval)

text \<open>
  Claim C7. \<open>levenshtein_distance\<close> is the classic edit distance of its two
  strings; for \<open>kitten\<close> and \<open>sitting\<close> it is 3, and the ratio that the \<open>anls\<close> mode
  computes for this pair is the double of 3/7.
\<close>

theorem levenshtein_distance_classic:
  "levenshtein_distance s1 s2 = lev s1 s2
   \<and> levenshtein_distance ''kitten'' ''sitting'' = 3
   \<and> anls_accuracy ''sitting'' ''kitten'' (Finite 0) = rnd (3 / 7)"
proof -
  have gen: "levenshtein_distance s1 s2 = lev s1 s2"
    unfolding levenshtein_distance_def
    by (simp add: levenshtein_fold [folded Suc_eq_plus1] lev_sym del: upt_Suc)
  have d: "levenshtein_distance ''kitten'' ''sitting'' = 3"
    by code_simp
  have g: "str_join '' '' (str_split (str_lower (str_strip ''kitten''))) = ''kitten''"
    by code_simp
  have t: "str_join '' '' (str_split (str_lower (str_strip ''sitting''))) = ''sitting''"
    by code_simp
  have lg: "length (str_upper ''kitten'') = 6" by code_simp
  have lt: "length (str_upper ''sitting'') = 7" by code_simp
  have r: "anls_accuracy ''sitting'' ''kitten'' (Finite 0) = rnd (3 / 7)"
    unfolding anls_accuracy_def Let_def g t d lg lt
    by (simp add: float_of_nat_def rnd_small_nat rnd_3_7 pymax_def)
  show ?thesis using gen d r by simp
qed


subsection \<open>Choice letters\<close>

text \<open>
  Claim C8, as amended. \<open>post_process\<close> asks of a parenthesized prediction that it
  is longer than two characters, with \<open>(\<close> first, \<open>)\<close> third and a letter of
  \<open>option_candidate\<close> between them; what follows the three characters is not looked
  at. So \<open>post_process\<close> of \<open>(C) cats\<close> returns \<open>C\<close>, and every prediction of that
  shape returns its letter.
\<close>

theorem post_process_parenthesized:
  assumes "p = str_upper (str_strip_chars (str_strip pred) ''*'')"
    and "2 < length p" and "p ! 0 = CHR ''(''" and "p ! 2 = CHR '')''"
    and "[p ! 1] \<in> set option_candidate"
  shows "post_process pred = Inr [p ! 1]"
  using assms by (simp add: post_process_def Let_def option_candidate_def)

theorem post_process_parenthesized_witness:
  "post_process ''(C) cats'' = Inr ''C''"
proof -
  have p: "''(C) CATS'' = str_upper (str_strip_chars (str_strip ''(C) cats'') ''*'')"
    by code_simp
  have m: "[''(C) CATS'' ! 1] \<in> set option_candidate"
    by (simp add: option_candidate_def)
  show ?thesis
    using post_process_parenthesized [OF p _ _ _ m] by simp
qed

text \<open>
  The claim as it was stated, that \<open>post_process\<close> of \<open>(C) cats\<close> fails, does not
  hold.
\<close>

theorem post_process_C_cats_counterexample:
  "post_process ''(C) cats'' \<noteq> Inl (RuntimeError Fail_to_parse_pred)"
  by code_simp

subsection \<open>Relaxed correctness and the math score\<close>

lemmas float_eval = float_str_def float_space_def parse_decimal_def parse_exponent_def
  digits_value_def pow10_def isdigit_def parse_inf_or_nan_def str_lower_def lower_char_def

lemma float_str_0: "float_str ''0'' = Some (Finite 0)"
  by (simp add: float_eval rnd_def)

lemma float_str_0_0: "float_str ''0.0'' = Some (Finite 0)"
  by (simp add: float_eval rnd_def)

lemma float_str_0_00: "float_str ''0.00'' = Some (Finite 0)"
  by (simp add: float_eval rnd_def)

lemma float_str_10: "float_str ''10'' = Some (Finite 10)"
  by (simp add: float_eval rnd_eval)

lemma float_str_11: "float_str ''11'' = Some (Finite 11)"
  by (simp add: float_eval rnd_eval)

lemma float_str_5: "float_str ''5'' = Some (Finite 5)"
  by (simp add: float_eval rnd_eval)

lemma float_str_10_4: "float_str ''10.4'' = Some (Finite (5854679515581645 / 2 ^ 49))"
  by (simp add: float_eval rnd_eval)

lemma rnd_005: "rnd (5 / 100) = Finite (3602879701896397 / 2 ^ 56)"
  by (simp add: rnd_eval)

lemma relaxed_to_float_plain:
  "relaxed_to_float ''0'' = Some (Finite 0)" "relaxed_to_float ''0.0'' = Some (Finite 0)"
  "relaxed_to_float ''0.00'' = Some (Finite 0)" "relaxed_to_float ''10'' = Some (Finite 10)"
  "relaxed_to_float ''11'' = Some (Finite 11)"
  "relaxed_to_float ''10.4'' = Some (Finite (5854679515581645 / 2 ^ 49))"
  by (simp_all add: relaxed_to_float_def endswith_def float_str_0 float_str_0_0 float_str_0_00
        float_str_10 float_str_11 float_str_10_4)

lemma relaxed_to_float_percent: "relaxed_to_float ''5%'' = Some (Finite 5)"
proof -
  have "str_rstrip_chars ''5%'' ''%'' = ''5''" by code_simp
  moreover have "endswith ''5%'' ''%''" by code_simp
  ultimately show ?thesis by (simp add: relaxed_to_float_def float_str_5)
qed

lemma math_to_float_0cm: "math_to_float ''0cm'' = Some (Finite 0)"
proof -
  have "str_replace (str_replace (str_replace (str_replace (str_replace (str_replace
          (str_replace ''0cm'' ''degrees'' []) ''degree'' []) (CHR 0x5C # ''angle'') [])
          ''degrees'' []) [CHR 0xB0] []) ''%'' []) ''cm'' [] = ''0''"
    by code_simp
  then show ?thesis by (simp add: math_to_float_def Let_def float_str_0)
qed

lemma relaxed_10_104: "relaxed_correctness ''10'' ''10.4'' (rnd (5 / 100))"
  by (simp add: relaxed_correctness_def relaxed_to_float_plain truthy_def fsub_def fle_def rnd_005 rnd_eval)

lemma relaxed_10_11: "\<not> relaxed_correctness ''10'' ''11'' (rnd (5 / 100))"
  by (simp add: relaxed_correctness_def relaxed_to_float_plain truthy_def fsub_def fle_def rnd_005 rnd_eval)

lemma relaxed_2019_2019: "relaxed_correctness ''2019'' ''2019'' m"
  by (simp add: relaxed_correctness_def)

lemma relaxed_2019_2020: "\<not> relaxed_correctness ''2019'' ''2020'' m"
  by (simp add: relaxed_correctness_def str_lower_def lower_char_def)

lemma relaxed_zero_target: "relaxed_correctness ''0'' ''0'' m" "\<not> relaxed_correctness ''0'' ''0.0'' m" "\<not> relaxed_correctness ''0'' ''0.00'' m"
  by (simp_all add: relaxed_correctness_def relaxed_to_float_plain truthy_def str_lower_def lower_char_def)


text \<open>
  Claim C10. When the target of \<open>relaxed_correctness\<close>, or of \<open>math_score\<close>, reads as
  the number zero, the result is the equality of the two strings without regard
  to case; \<open>0\<close>, \<open>0.0\<close> and \<open>0.00\<close> read as zero, \<open>0cm\<close> does for \<open>math_score\<close>, and
  \<open>relaxed_correctness\<close> of the target \<open>0\<close> and the prediction \<open>0.00\<close> is false.
\<close>

theorem zero_target_exact_match:
  assumes "relaxed_to_float target = Some (Finite 0)"
    and "math_to_float mtarget = Some (Finite 0)"
  shows "relaxed_correctness target prediction m = (str_lower prediction = str_lower target)
         \<and> math_score mtarget mprediction mm = (str_lower mprediction = str_lower mtarget)
         \<and> relaxed_to_float ''0'' = Some (Finite 0)
         \<and> relaxed_to_float ''0.0'' = Some (Finite 0)
         \<and> relaxed_to_float ''0.00'' = Some (Finite 0)
         \<and> math_to_float ''0cm'' = Some (Finite 0)
         \<and> \<not> relaxed_correctness ''0'' ''0.00'' (rnd (5 / 100))"
proof -
  have r: "relaxed_correctness target prediction m = (str_lower prediction = str_lower target)"
    using assms(1)
    by (simp add: relaxed_correctness_def truthy_def Let_def split: option.splits)
  have q: "math_score mtarget mprediction mm = (str_lower mprediction = str_lower mtarget)"
    using assms(2)
    by (simp add: math_score_def truthy_def Let_def split: option.splits)
  show ?thesis
    using r q by (simp add: relaxed_to_float_plain math_to_float_0cm relaxed_zero_target)
qed

theorem zero_target_exact_match_witness:
  "relaxed_to_float ''0'' = Some (Finite 0) \<and> math_to_float ''0cm'' = Some (Finite 0)
   \<and> relaxed_correctness ''0'' ''0.00'' (rnd (5 / 100)) = (str_lower ''0.00'' = str_lower ''0'')
   \<and> math_score ''0cm'' ''0'' (rnd (1 / 1000)) = (str_lower ''0'' = str_lower ''0cm'')"
proof -
  have h1: "relaxed_to_float ''0'' = Some (Finite 0)" by (rule relaxed_to_float_plain)
  have h2: "math_to_float ''0cm'' = Some (Finite 0)" by (rule math_to_float_0cm)
  show ?thesis
    using zero_target_exact_match [OF h1 h2, of "''0.00''" "rnd (5 / 100)" "''0''" "rnd (1 / 1000)"] h1 h2
    by blast
qed

text \<open>
  Claim C4, as amended. For a prediction that reads as a number and a target that
  reads as a number other than zero, \<open>relaxed_correctness\<close> is the equality of the
  two strings without regard to case when the target has four characters and
  starts with \<open>20\<close>, and otherwise whether the relative difference is at most the
  tolerance. \<open>5%\<close> reads as 5. With the tolerance 0.05 the target \<open>10\<close> accepts
  \<open>10.4\<close> and rejects \<open>11\<close>, and the target \<open>2019\<close> accepts \<open>2019\<close> and rejects
  \<open>2020\<close>.
\<close>

theorem relaxed_correctness_numeric:
  assumes "relaxed_to_float prediction = Some p"
    and "relaxed_to_float target = Some t"
    and "t \<noteq> Finite 0"
  shows "relaxed_correctness target prediction m =
           (if length target = 4 \<and> startswith target ''20''
            then str_lower prediction = str_lower target
            else fle (fdiv (fabs (fsub p t)) (fabs t)) m)
         \<and> relaxed_to_float ''5%'' = Some (Finite 5)
         \<and> relaxed_correctness ''10'' ''10.4'' (rnd (5 / 100))
         \<and> \<not> relaxed_correctness ''10'' ''11'' (rnd (5 / 100))
         \<and> relaxed_correctness ''2019'' ''2019'' (rnd (5 / 100))
         \<and> \<not> relaxed_correctness ''2019'' ''2020'' (rnd (5 / 100))"
proof -
  have g: "relaxed_correctness target prediction m =
           (if length target = 4 \<and> startswith target ''20''
            then str_lower prediction = str_lower target
            else fle (fdiv (fabs (fsub p t)) (fabs t)) m)"
    using assms by (simp add: relaxed_correctness_def truthy_def Let_def)
  show ?thesis
    by (intro conjI g relaxed_to_float_percent relaxed_10_104 relaxed_10_11 relaxed_2019_2019
          relaxed_2019_2020)
qed

theorem relaxed_correctness_numeric_witness:
  "relaxed_to_float ''10.4'' = Some (Finite (5854679515581645 / 2 ^ 49))
   \<and> relaxed_to_float ''10'' = Some (Finite 10)
   \<and> Finite 10 \<noteq> Finite 0
   \<and> relaxed_correctness ''10'' ''10.4'' (rnd (5 / 100)) =
       fle (fdiv (fabs (fsub (Finite (5854679515581645 / 2 ^ 49)) (Finite 10))) (fabs (Finite 10)))
           (rnd (5 / 100))"
proof -
  have h1: "relaxed_to_float ''10.4'' = Some (Finite (5854679515581645 / 2 ^ 49))"
    by (rule relaxed_to_float_plain)
  have h2: "relaxed_to_float ''10'' = Some (Finite 10)"
    by (rule relaxed_to_float_plain)
  have h3: "Finite 10 \<noteq> Finite 0" by simp
  show ?thesis
    using relaxed_correctness_numeric [OF h1 h2 h3, of "rnd (5 / 100)"] h1 h2 h3
    by simp
qed

text \<open>
  The claim as it was stated, for every target that reads as a number, does not
  hold: the target \<open>0\<close> accepts the prediction \<open>0\<close> and rejects the prediction \<open>0.0\<close>,
  and both predictions read as the number of the target, so the result is not
  given by the two numbers.
\<close>

theorem relaxed_correctness_zero_counterexample:
  "relaxed_to_float ''0'' = Some (Finite 0) \<and> relaxed_to_float ''0.0'' = Some (Finite 0)
   \<and> relaxed_correctness ''0'' ''0'' (rnd (5 / 100))
   \<and> \<not> relaxed_correctness ''0'' ''0.0'' (rnd (5 / 100))"
  by (simp add: relaxed_to_float_plain relaxed_zero_target)

subsection \<open>The answer processor applied twice\<close>

text \<open>
  The claim that the answer processor gives the same string when it is applied a
  second time does not hold: it turns \<open>hes\<close> into \<open>he's\<close>, and \<open>he's\<close> into the
  two words \<open>he\<close> and \<open>'s\<close>.
\<close>

theorem answer_processor_twice_counterexample:
  "answer_processor ''hes'' = ''he's''
   \<and> answer_processor (answer_processor ''hes'') = ''he 's''"
  by code_simp


subsection \<open>The dispatcher\<close>

lemma rnd_09: "rnd (9 / 10) = Finite (8106479329266893 / 2 ^ 53)"
  by (simp add: rnd_eval)

lemma flt_pymax: "a \<noteq> NaN \<Longrightarrow> flt thr (pymax a b) = (flt thr a \<or> flt thr b)"
  by (cases a; cases b; cases thr) (auto simp: pymax_def)

lemma pymax_not_NaN: "a \<noteq> NaN \<Longrightarrow> pymax a b \<noteq> NaN"
  by (cases a; cases b) (auto simp: pymax_def)

lemma float_of_bool_not_NaN [simp]: "float_of_bool b \<noteq> NaN"
  by (simp add: float_of_bool_def)

lemma eval_pred_list_single:
  "length gts = 10 \<Longrightarrow> \<exists>v. eval_pred_list [\<lparr>pred_answer = p, gt_answers = gts\<rparr>] = Inr v"
  by (simp add: eval_pred_list_def entry_score_def compute_answer_scores_def Let_def)

lemma vqa_accuracy_total:
  "\<exists>V. vqa_accuracy p t (Finite 0) = Inr V \<and> V \<noteq> NaN"
proof -
  obtain v where v: "eval_pred_list [\<lparr>pred_answer = p, gt_answers = replicate 10 t\<rparr>] = Inr v"
    using eval_pred_list_single [of "replicate 10 t" p] by auto
  show ?thesis
    by (simp add: vqa_accuracy_def Let_def v pymax_not_NaN)
qed

lemma zero_below_threshold: "\<not> flt (rnd (9 / 10)) (Finite 0)"
  by (simp add: rnd_09)

lemma anls_accuracy_not_NaN: "a \<noteq> NaN \<Longrightarrow> anls_accuracy p t a \<noteq> NaN"
  by (simp add: anls_accuracy_def Let_def pymax_not_NaN)

lemma blocks_not_NaN:
  "a \<noteq> NaN \<Longrightarrow> relaxed_block M p t a \<noteq> NaN"
  "a \<noteq> NaN \<Longrightarrow> anls_block M p t a \<noteq> NaN"
  "a \<noteq> NaN \<Longrightarrow> mc_block M p t a \<noteq> NaN"
  "a \<noteq> NaN \<Longrightarrow> math_block M p t a \<noteq> NaN"
  by (simp_all add: relaxed_block_def anls_block_def mc_block_def math_block_def
        pymax_not_NaN anls_accuracy_not_NaN)

lemma relaxed_block_threshold:
  "a \<noteq> NaN \<Longrightarrow> flt (rnd (9 / 10)) (relaxed_block M p t a)
     = (flt (rnd (9 / 10)) a \<or> flt (rnd (9 / 10)) (relaxed_block M p t (Finite 0)))"
  by (simp add: relaxed_block_def flt_pymax zero_below_threshold)

lemma anls_block_threshold:
  "a \<noteq> NaN \<Longrightarrow> flt (rnd (9 / 10)) (anls_block M p t a)
     = (flt (rnd (9 / 10)) a \<or> flt (rnd (9 / 10)) (anls_block M p t (Finite 0)))"
  by (simp add: anls_block_def anls_accuracy_def Let_def flt_pymax zero_below_threshold)

lemma mc_block_threshold:
  "a \<noteq> NaN \<Longrightarrow> flt (rnd (9 / 10)) (mc_block M p t a)
     = (flt (rnd (9 / 10)) a \<or> flt (rnd (9 / 10)) (mc_block M p t (Finite 0)))"
  by (simp add: mc_block_def flt_pymax zero_below_threshold)

lemma math_block_threshold:
  "a \<noteq> NaN \<Longrightarrow> flt (rnd (9 / 10)) (math_block M p t a)
     = (flt (rnd (9 / 10)) a \<or> flt (rnd (9 / 10)) (math_block M p t (Finite 0)))"
  by (simp add: math_block_def flt_pymax zero_below_threshold)

lemma blocks_mono:
  assumes "M \<subseteq> M'"
  shows "flt (rnd (9 / 10)) (relaxed_block M p t (Finite 0))
           \<Longrightarrow> flt (rnd (9 / 10)) (relaxed_block M' p t (Finite 0))"
    and "flt (rnd (9 / 10)) (anls_block M p t (Finite 0))
           \<Longrightarrow> flt (rnd (9 / 10)) (anls_block M' p t (Finite 0))"
    and "flt (rnd (9 / 10)) (mc_block M p t (Finite 0))
           \<Longrightarrow> flt (rnd (9 / 10)) (mc_block M' p t (Finite 0))"
    and "flt (rnd (9 / 10)) (math_block M p t (Finite 0))
           \<Longrightarrow> flt (rnd (9 / 10)) (math_block M' p t (Finite 0))"
  using assms
  by (auto simp add: relaxed_block_def anls_block_def mc_block_def math_block_def
        zero_below_threshold split: if_splits)

lemma threshold_chain:
  assumes "a \<noteq> NaN"
  shows "flt (rnd (9 / 10))
           (math_block M p t (mc_block M p t (anls_block M p t (relaxed_block M p t a))))
         = (flt (rnd (9 / 10)) a
            \<or> flt (rnd (9 / 10)) (relaxed_block M p t (Finite 0))
            \<or> flt (rnd (9 / 10)) (anls_block M p t (Finite 0))
            \<or> flt (rnd (9 / 10)) (mc_block M p t (Finite 0))
            \<or> flt (rnd (9 / 10)) (math_block M p t (Finite 0)))"
proof -
  have n1: "relaxed_block M p t a \<noteq> NaN" using assms by (rule blocks_not_NaN)
  have n2: "anls_block M p t (relaxed_block M p t a) \<noteq> NaN" using n1 by (rule blocks_not_NaN)
  have n3: "mc_block M p t (anls_block M p t (relaxed_block M p t a)) \<noteq> NaN"
    using n2 by (rule blocks_not_NaN)
  show ?thesis
    unfolding math_block_threshold [OF n3] mc_block_threshold [OF n2]
      anls_block_threshold [OF n1] relaxed_block_threshold [OF assms]
    by blast
qed

lemma check_answer_unfold:
  assumes ne: "str_lower p \<noteq> str_lower t"
    and V: "vqa_accuracy p t (Finite 0) = Inr V"
  shows "check_answer c p t M =
     (let a = math_block M p t (mc_block M p t (anls_block M p t (relaxed_block M p t
                (if ''vqa_score'' \<in> M then V else Finite 0))));
          d = (if flt (rnd (9 / 10)) a then 1 else 0)
      in Inr (d, c((p, t) \<mapsto> d)))"
  using ne V by (cases "''vqa_score'' \<in> M") (simp_all add: check_answer_def Let_def)


lemma vqa_start_not_NaN: "V \<noteq> NaN \<Longrightarrow> (if ''vqa_score'' \<in> M then V else Finite 0) \<noteq> NaN"
  by simp

lemma final_accuracy_mono:
  assumes sub: "M \<subseteq> M'" and Vn: "V \<noteq> NaN"
    and pass: "flt (rnd (9 / 10))
        (math_block M p t (mc_block M p t (anls_block M p t (relaxed_block M p t
           (if ''vqa_score'' \<in> M then V else Finite 0)))))"
  shows "flt (rnd (9 / 10))
        (math_block M' p t (mc_block M' p t (anls_block M' p t (relaxed_block M' p t
           (if ''vqa_score'' \<in> M' then V else Finite 0)))))"
proof -
  have v: "flt (rnd (9 / 10)) (if ''vqa_score'' \<in> M then V else Finite 0)
      \<Longrightarrow> flt (rnd (9 / 10)) (if ''vqa_score'' \<in> M' then V else Finite 0)"
    using sub by (auto simp add: zero_below_threshold split: if_splits)
  show ?thesis
    using pass v blocks_mono [OF sub, of p t]
    unfolding threshold_chain [OF vqa_start_not_NaN [OF Vn]]
    by blast
qed

text \<open>
  Claim C3. \<open>check_answer\<close> returns a decision for every mode set, and a mode set
  that holds another returns a decision that is not lower: enabling one more mode
  never turns a 1 into a 0.
\<close>

theorem check_answer_monotone:
  assumes "M \<subseteq> M'"
  shows "\<exists>a b c1 c2. check_answer c p t M = Inr (a, c1) \<and> check_answer c p t M' = Inr (b, c2)
           \<and> a \<le> b"
proof (cases "str_lower p = str_lower t")
  case True
  then show ?thesis by (simp add: check_answer_def Let_def)
next
  case False
  obtain V where V: "vqa_accuracy p t (Finite 0) = Inr V" and Vn: "V \<noteq> NaN"
    using vqa_accuracy_total by blast
  show ?thesis
    unfolding check_answer_unfold [OF False V] Let_def
    using final_accuracy_mono [OF assms Vn, of p t] by auto
qed

theorem check_answer_monotone_witness:
  "{''anls''} \<subseteq> {''anls'', ''mc_score''}
   \<and> (\<exists>a b c1 c2. check_answer Map.empty ''(B)'' ''B'' {''anls''} = Inr (a, c1)
          \<and> check_answer Map.empty ''(B)'' ''B'' {''anls'', ''mc_score''} = Inr (b, c2) \<and> a \<le> b)"
proof -
  have h: "{''anls''} \<subseteq> {''anls'', ''mc_score''}" by simp
  show ?thesis
    using check_answer_monotone [OF h, of Map.empty "''(B)''" "''B''"] h by blast
qed

text \<open>
  Claim C5. The decision that \<open>check_answer\<close> returns is the same from every two
  states of the cache: what the first statement reads from the cache is never
  used.
\<close>

theorem check_answer_cache_independent:
  "\<exists>a c1' c2'. check_answer c1 p t M = Inr (a, c1') \<and> check_answer c2 p t M = Inr (a, c2')"
proof (cases "str_lower p = str_lower t")
  case True
  then show ?thesis by (simp add: check_answer_def Let_def)
next
  case False
  obtain V where V: "vqa_accuracy p t (Finite 0) = Inr V"
    using vqa_accuracy_total by blast
  show ?thesis
    unfolding check_answer_unfold [OF False V] Let_def by simp
qed

subsection \<open>The soft accuracy\<close>

lemma fold_upd_lookup:
  "fold (\<lambda>u m. m(u \<mapsto> f u)) us m0 k = (if k \<in> set us then Some (f k) else m0 k)"
  by (induction us arbitrary: m0) auto

lemma enumerate_as_map: "enumerate 0 xs = map (\<lambda>j. (j, xs ! j)) [0 ..< length xs]"
  by (rule nth_equalityI) (simp_all add: nth_enumerate_eq)

lemma matching_count:
  assumes "i < length xs"
  shows "length (filter (\<lambda>item. snd item = u)
            (filter (\<lambda>item. item \<noteq> (i, xs ! i)) (map (\<lambda>j. (j, xs ! j)) [0 ..< length xs])))
       = length (filter (\<lambda>other. other \<noteq> i \<and> xs ! other = u) [0 ..< length xs])"
proof -
  have "filter (\<lambda>item. snd item = u)
          (filter (\<lambda>item. item \<noteq> (i, xs ! i)) (map (\<lambda>j. (j, xs ! j)) [0 ..< length xs]))
        = map (\<lambda>j. (j, xs ! j)) (filter (\<lambda>other. other \<noteq> i \<and> xs ! other = u) [0 ..< length xs])"
    by (simp add: filter_map comp_def conj_commute)
  then show ?thesis by simp
qed

lemma answer_score_loo:
  "answer_score (enumerate 0 xs) u =
     fdiv (pysum (map (\<lambda>query.
                   pymin (Finite 1)
                     (fdiv (float_of_nat (length (filter (\<lambda>other. other \<noteq> query \<and> xs ! other = u)
                                                    [0 ..< length xs])))
                           (Finite 3)))
                 [0 ..< length xs]))
          (float_of_nat (length xs))"
  unfolding answer_score_def Let_def enumerate_as_map
  by (simp add: comp_def matching_count cong: map_cong)

lemma entry_score_loo:
  assumes "length gts = 10"
  shows "entry_score \<lparr>pred_answer = p, gt_answers = gts\<rparr>
         = Inr (leave_one_out (answer_processor p) (map answer_processor gts))"
  using assms
  by (simp add: entry_score_def compute_answer_scores_def Let_def fold_upd_lookup
        answer_score_loo leave_one_out_def)

lemma rnd_more:
  "rnd 2 = Finite 2" "rnd 4 = Finite 4" "rnd 5 = Finite 5" "rnd 8 = Finite 8" "rnd 9 = Finite 9"
  "rnd (7 / 3) = Finite (5254199565265579 / 2 ^ 51)"
  by (simp_all add: rnd_eval)

lemma eval_pred_list_single_entry:
  assumes "entry_score e = Inr score"
  shows "eval_pred_list [e] = Inr (fdiv (pysum [score]) (float_of_nat 1))"
  using assms by (simp add: eval_pred_list_def)

lemma leave_one_out_cat:
  "leave_one_out ''cat'' (replicate 7 ''cat'' @ replicate 3 ''dog'') = Finite 1"
proof -
  let ?L = "replicate 7 ''cat'' @ replicate 3 ''dog''"
  have n: "length ?L = 10" by simp
  have mem: "''cat'' \<in> set ?L" by simp
  have counts: "map (\<lambda>query. length (filter (\<lambda>other. other \<noteq> query \<and> ?L ! other = ''cat'')
                    [0 ..< length ?L])) [0 ..< length ?L] = [6, 6, 6, 6, 6, 6, 6, 7, 7, 7]"
    by code_simp
  have split: "map (\<lambda>query. pymin (Finite 1)
                  (fdiv (float_of_nat (length (filter (\<lambda>other. other \<noteq> query \<and> ?L ! other = ''cat'')
                    [0 ..< length ?L]))) (Finite 3))) [0 ..< length ?L]
      = map (\<lambda>k. pymin (Finite 1) (fdiv (float_of_nat k) (Finite 3)))
          (map (\<lambda>query. length (filter (\<lambda>other. other \<noteq> query \<and> ?L ! other = ''cat'')
                    [0 ..< length ?L])) [0 ..< length ?L])"
    by (simp only: map_map comp_def)
  have accs: "map (\<lambda>k. pymin (Finite 1) (fdiv (float_of_nat k) (Finite 3))) [6, 6, 6, 6, 6, 6, 6, 7, 7, 7]
      = [Finite 1, Finite 1, Finite 1, Finite 1, Finite 1, Finite 1, Finite 1, Finite 1, Finite 1, Finite 1]"
    by (simp add: float_of_nat_def rnd_small_nat rnd_more pymin_def)
  have s: "fdiv (pysum [Finite 1, Finite 1, Finite 1, Finite 1, Finite 1, Finite 1, Finite 1, Finite 1, Finite 1, Finite 1]) (float_of_nat 10) = Finite 1"
    by (simp add: pysum_def float_of_nat_def rnd_small_nat rnd_more)
  show ?thesis
    unfolding leave_one_out_def split counts accs
    using mem s by (simp only: if_True n)
qed


text \<open>
  Claim C1. For ten ground truths the score of an entry is the leave-one-out
  agreement of the processed prediction with the processed ground truths, and
  \<open>eval_pred_list\<close> of the one entry is the sum of that one score divided by 1;
  for seven times \<open>cat\<close> and three times \<open>dog\<close> and the prediction \<open>cat\<close> the result
  is 1.
\<close>

theorem vqa_score_leave_one_out:
  assumes "length gts = 10"
  shows "entry_score \<lparr>pred_answer = p, gt_answers = gts\<rparr>
           = Inr (leave_one_out (answer_processor p) (map answer_processor gts))
         \<and> eval_pred_list [\<lparr>pred_answer = p, gt_answers = gts\<rparr>]
           = Inr (fdiv (pysum [leave_one_out (answer_processor p) (map answer_processor gts)])
                       (float_of_nat 1))
         \<and> eval_pred_list
             [\<lparr>pred_answer = ''cat'', gt_answers = replicate 7 ''cat'' @ replicate 3 ''dog''\<rparr>]
           = Inr (Finite 1)"
proof -
  have e: "entry_score \<lparr>pred_answer = p, gt_answers = gts\<rparr>
           = Inr (leave_one_out (answer_processor p) (map answer_processor gts))"
    using assms by (rule entry_score_loo)
  have l: "eval_pred_list [\<lparr>pred_answer = p, gt_answers = gts\<rparr>]
           = Inr (fdiv (pysum [leave_one_out (answer_processor p) (map answer_processor gts)])
                       (float_of_nat 1))"
    using e by (rule eval_pred_list_single_entry)
  have np: "answer_processor ''cat'' = ''cat''" by code_simp
  have nd: "answer_processor ''dog'' = ''dog''" by code_simp
  have c: "entry_score \<lparr>pred_answer = ''cat'', gt_answers = replicate 7 ''cat'' @ replicate 3 ''dog''\<rparr>
           = Inr (Finite 1)"
    by (simp add: entry_score_loo np nd leave_one_out_cat)
  have x: "eval_pred_list
             [\<lparr>pred_answer = ''cat'', gt_answers = replicate 7 ''cat'' @ replicate 3 ''dog''\<rparr>]
           = Inr (Finite 1)"
    by (simp add: eval_pred_list_single_entry [OF c] pysum_def float_of_nat_def rnd_small_nat)
  show ?thesis using e l x by (intro conjI)
qed

theorem vqa_score_leave_one_out_witness:
  "length (replicate 7 ''cat'' @ replicate 3 ''dog'') = 10
   \<and> entry_score \<lparr>pred_answer = ''cat'', gt_answers = replicate 7 ''cat'' @ replicate 3 ''dog''\<rparr>
       = Inr (leave_one_out (answer_processor ''cat'')
                (map answer_processor (replicate 7 ''cat'' @ replicate 3 ''dog'')))"
proof -
  have h: "length (replicate 7 ''cat'' @ replicate 3 ''dog'') = 10" by simp
  show ?thesis
    using vqa_score_leave_one_out [OF h, of "''cat''"] h by blast
qed

end
